theory Spec2Isabelle
  imports Complex_Main "HOL-Library.Sublist"
begin

section \<open>JavaScript values, numbers and strings\<close>

text \<open>
  A JavaScript number is a double. The model keeps the three special values and takes
  the finite ones as rationals (every finite double is one), so that comparison,
  \<open>Math.round\<close> and \<open>Math.floor\<close> are the exact operations ECMAScript gives them.
\<close>

datatype jsnum = NaN | NegInf | Fin rat | PosInf

text \<open>
  The values a request field can hold. \<open>JObject n\<close> is an object or an array; \<open>n\<close> is
  what \<open>Number(...)\<close> makes of it.
\<close>

datatype js_value =
    JUndefined
  | JNull
  | JBoolean bool
  | JNumber jsnum
  | JString string
  | JObject jsnum

text \<open>What \<open>!v\<close> negates: the truthiness of a value.\<close>

fun truthy :: "js_value \<Rightarrow> bool" where
  "truthy JUndefined = False"
| "truthy JNull = False"
| "truthy (JBoolean b) = b"
| "truthy (JNumber n) = (n \<noteq> NaN \<and> n \<noteq> Fin 0)"
| "truthy (JString s) = (s \<noteq> [])"
| "truthy (JObject n) = True"

text \<open>
  \<open>Number(v)\<close>. The conversion of a string to a double is the runtime's
  (\<open>StringToNumber\<close> of ECMAScript, with its rounding to the nearest double); it is
  the parameter \<open>sn\<close>.
\<close>

fun js_Number :: "(string \<Rightarrow> jsnum) \<Rightarrow> js_value \<Rightarrow> jsnum" where
  "js_Number sn JUndefined = NaN"
| "js_Number sn JNull = Fin 0"
| "js_Number sn (JBoolean b) = Fin (if b then 1 else 0)"
| "js_Number sn (JNumber n) = n"
| "js_Number sn (JString s) = sn s"
| "js_Number sn (JObject n) = n"

definition isNaN :: "jsnum \<Rightarrow> bool" where
  "isNaN n = (n = NaN)"

text \<open>\<open>a < b\<close> on numbers: false whenever an operand is \<open>NaN\<close>.\<close>

fun js_lt :: "jsnum \<Rightarrow> jsnum \<Rightarrow> bool" where
  "js_lt NaN b = False"
| "js_lt a NaN = False"
| "js_lt (Fin a) (Fin b) = (a < b)"
| "js_lt a NegInf = False"
| "js_lt NegInf b = True"
| "js_lt PosInf b = False"
| "js_lt (Fin a) PosInf = True"

definition js_gt :: "jsnum \<Rightarrow> jsnum \<Rightarrow> bool" where
  "js_gt a b = js_lt b a"

definition js_le :: "jsnum \<Rightarrow> jsnum \<Rightarrow> bool" where
  "js_le a b = (a \<noteq> NaN \<and> b \<noteq> NaN \<and> \<not> js_lt b a)"

text \<open>\<open>Math.round\<close> rounds to the nearest integer, a tie going up; \<open>Math.floor\<close>.\<close>

fun Math_round :: "jsnum \<Rightarrow> jsnum" where
  "Math_round (Fin q) = Fin (of_int \<lfloor>q + 1 / 2\<rfloor>)"
| "Math_round n = n"






text \<open>
  Strings are lists of code units below 256. The white space and line terminators of
  ECMAScript in that range are the ones \<open>trim\<close> strips.
\<close>

definition is_ws :: "char \<Rightarrow> bool" where
  "is_ws c = (c \<in> set [CHR 0x09, CHR 0x0A, CHR 0x0B, CHR 0x0C, CHR 0x0D, CHR 0x20, CHR 0xA0])"

definition trim :: "string \<Rightarrow> string" where
  "trim s = rev (dropWhile is_ws (rev (dropWhile is_ws s)))"

definition lower_char :: "char \<Rightarrow> char" where
  "lower_char c =
     (let n = of_char c :: nat
      in if (65 \<le> n \<and> n \<le> 90) \<or> (192 \<le> n \<and> n \<le> 222 \<and> n \<noteq> 215)
         then char_of (n + 32) else c)"

definition toLowerCase :: "string \<Rightarrow> string" where
  "toLowerCase s = map lower_char s"

text \<open>\<open>s.charAt(i)\<close>: the empty string when \<open>i\<close> is out of range.\<close>

definition charAt :: "string \<Rightarrow> int \<Rightarrow> string" where
  "charAt s i = (if 0 \<le> i \<and> i < int (length s) then [s ! nat i] else [])"

text \<open>\<open>s.substring(0, n)\<close> for a non-negative integer \<open>n\<close>.\<close>

definition substring0 :: "string \<Rightarrow> nat \<Rightarrow> string" where
  "substring0 s n = take n s"

definition is_alnum :: "char \<Rightarrow> bool" where
  "is_alnum c =
     (let n = of_char c :: nat
      in (48 \<le> n \<and> n \<le> 57) \<or> (65 \<le> n \<and> n \<le> 90) \<or> (97 \<le> n \<and> n \<le> 122))"

text \<open>The test \<open>/^[a-zA-Z0-9]+$/\<close>.\<close>

definition alnum_only :: "string \<Rightarrow> bool" where
  "alnum_only s = (s \<noteq> [] \<and> list_all is_alnum s)"

text \<open>The test \<open>/^https?:\/\//\<close>.\<close>

definition has_http_scheme :: "string \<Rightarrow> bool" where
  "has_http_scheme s = (prefix ''http://'' s \<or> prefix ''https://'' s)"

text \<open>The test \<open>/^172\.(1[6-9]|2[0-9]|3[0-1])\./\<close>.\<close>

definition matches_172 :: "string \<Rightarrow> bool" where
  "matches_172 h =
     (case drop 4 h of
        a # b # d # rest \<Rightarrow>
          take 4 h = ''172.'' \<and> d = CHR ''.'' \<and>
          ((a = CHR ''1'' \<and> b \<in> set ''6789'') \<or>
           (a = CHR ''2'' \<and> b \<in> set ''0123456789'') \<or>
           (a = CHR ''3'' \<and> b \<in> set ''01''))
      | _ \<Rightarrow> False)"

section \<open>ValidationService\<close>

text \<open>
  A validation result \<open>{isValid, error}\<close> or \<open>{isValid, ...}\<close> is a sum: \<open>Inl\<close> the
  error message, \<open>Inr\<close> the validated value.
\<close>

text \<open>What \<open>new URL(s)\<close> gives the code: the host name and the protocol.\<close>

record url_obj =
  hostname :: string
  protocol :: string

text \<open>
  \<open>validateUrl\<close>. The library check \<open>validator.isURL\<close> (with the options of the
  source) and the platform's \<open>new URL\<close> are parameters; \<open>new URL\<close> throws on a
  string it cannot parse, which is \<open>None\<close>.
\<close>

definition private_host :: "string \<Rightarrow> bool" where
  "private_host h =
     (h = ''localhost'' \<or> h = ''127.0.0.1'' \<or> h = ''0.0.0.0'' \<or>
      prefix ''192.168.'' h \<or> prefix ''10.'' h \<or> matches_172 h)"

definition validateUrl ::
  "(string \<Rightarrow> bool) \<Rightarrow> (string \<Rightarrow> url_obj option) \<Rightarrow> js_value \<Rightarrow> string + string" where
  "validateUrl isURL new_URL url =
     (case url of
        JString s \<Rightarrow>
          if s = [] then Inl ''URL is required and must be a string''
          else
            let trimmedUrl = trim s in
            if trimmedUrl = [] then Inl ''URL cannot be empty''
            else if \<not> has_http_scheme trimmedUrl
              then Inl ''URL must include http:// or https:// protocol''
            else if \<not> isURL trimmedUrl then Inl ''Invalid URL format''
            else
              (case new_URL trimmedUrl of
                 None \<Rightarrow> Inl ''Malformed URL''
               | Some urlObj \<Rightarrow>
                   if private_host (toLowerCase (hostname urlObj))
                     then Inl ''URLs pointing to private/local addresses are not allowed''
                   else if protocol urlObj \<notin> set [''http:'', ''https:'']
                     then Inl ''Only HTTP and HTTPS protocols are allowed''
                   else Inr trimmedUrl)
      | _ \<Rightarrow> Inl ''URL is required and must be a string'')"

definition validateValidity :: "(string \<Rightarrow> jsnum) \<Rightarrow> js_value \<Rightarrow> jsnum \<Rightarrow> string + jsnum" where
  "validateValidity sn validity defaultValue =
     (if validity = JUndefined \<or> validity = JNull then Inr defaultValue
      else
        let validityNum = js_Number sn validity in
        if isNaN validityNum then Inl ''Validity must be a number''
        else if js_le validityNum (Fin 0) then Inl ''Validity must be greater than 0 minutes''
        else if js_gt validityNum (Fin 525600)
          then Inl ''Validity cannot exceed 1 year (525600 minutes)''
        else Inr (Math_round validityNum))"



text \<open>\<open>sanitizeInput\<close>, on a string that is present.\<close>

definition sanitizeInput :: "string \<Rightarrow> nat \<Rightarrow> string" where
  "sanitizeInput input maxLength =
     (if input = [] then []
      else filter (\<lambda>c. c \<noteq> CHR ''<'' \<and> c \<noteq> CHR ''>'') (substring0 (trim input) maxLength))"

section \<open>The Url model\<close>

text \<open>Times are milliseconds since the epoch, as \<open>Date\<close> holds them.\<close>

record click =
  ts :: int
  ip :: string
  referrer :: "string option"
  userAgent :: "string option"
  country :: "string option"

record url_doc =
  shortcode :: string
  originalUrl :: string
  createdAt :: int
  expiryAt :: int
  clickCount :: int
  clicks :: "click list"

text \<open>A thrown error: its \<open>code\<close> property, when it has one, and its message.\<close>

datatype exn = Exn (err_code: "nat option") (err_message: string)

text \<open>
  What lies outside the repository, as the handlers see it: the runtime
  (\<open>StringToNumber\<close>, the successive results of \<open>Math.random()\<close>, the product of
  two doubles as the runtime rounds it to the nearest double), the libraries
  (\<open>validator.isURL\<close>, \<open>new URL\<close>, \<open>geoip.lookup\<close>), the configured host name, and the
  store behind the mongoose model: \<open>exists\<close>, \<open>findOne\<close> and the write that \<open>save\<close>
  ends in (mongoose's own validation included), each of which may reject. A rejected
  write with \<open>code\<close> 11000 is the store's duplicate-key error.
\<close>

record env =
  StringToNumber :: "string \<Rightarrow> jsnum"
  Math_random :: "nat \<Rightarrow> rat"
  double_times :: "rat \<Rightarrow> rat \<Rightarrow> rat"
  isURL :: "string \<Rightarrow> bool"
  new_URL :: "string \<Rightarrow> url_obj option"
  geoip_lookup :: "string \<Rightarrow> string option option"
  config_hostname :: string
  Url_exists :: "string \<Rightarrow> exn + bool"
  Url_findOne :: "string \<Rightarrow> exn + url_doc option"
  Url_write :: "url_doc \<Rightarrow> exn + unit"

definition isExpired :: "url_doc \<Rightarrow> int \<Rightarrow> bool" where
  "isExpired doc now = (now > expiryAt doc)"

text \<open>
  \<open>save\<close>: the \<open>pre('save')\<close> hook of the schema, then the write. The result carries
  the documents handed to the store, so that writes can be counted.
\<close>

definition Url_save :: "env \<Rightarrow> bool \<Rightarrow> int \<Rightarrow> url_doc \<Rightarrow> url_doc list \<times> (exn + unit)" where
  "Url_save e isNew now doc =
     (if isNew \<and> expiryAt doc \<le> now
        then ([], Inl (Exn None ''Expiry date must be in the future''))
      else ([doc], Url_write e doc))"

text \<open>\<open>addClick\<close>: the push and the recount; the caller's \<open>save\<close> follows.\<close>

definition push_click :: "url_doc \<Rightarrow> click \<Rightarrow> url_doc" where
  "push_click doc clickData =
     (let cs = clicks doc @ [clickData]
      in doc\<lparr>clicks := cs, clickCount := int (length cs)\<rparr>)"

definition addClick :: "env \<Rightarrow> int \<Rightarrow> url_doc \<Rightarrow> click \<Rightarrow> url_doc list \<times> (exn + unit)" where
  "addClick e now doc clickData = Url_save e False now (push_click doc clickData)"

text \<open>\<open>Array.prototype.slice(start, end)\<close> with its clamping of the two indices.\<close>

definition trunc :: "rat \<Rightarrow> int" where
  "trunc q = (if 0 \<le> q then \<lfloor>q\<rfloor> else \<lceil>q\<rceil>)"



section \<open>ShortcodeService\<close>

definition base62Chars :: string where
  "base62Chars = ''0123456789abcdefghijklmnopqrstuvwxyzABCDEFGHIJKLMNOPQRSTUVWXYZ''"

definition defaultLength :: nat where "defaultLength = 6"
definition minCustomLength :: nat where "minCustomLength = 4"
definition maxCustomLength :: nat where "maxCustomLength = 20"
definition maxRetries :: nat where "maxRetries = 5"
definition defaultValidityMinutes :: jsnum where "defaultValidityMinutes = Fin 30"

text \<open>
  \<open>generateRandomBase62\<close>: one call of \<open>Math.random()\<close> for each character, taken
  from position \<open>pos\<close> of the random source on. The product with the length of the
  alphabet is the runtime's product of doubles, which may round up to the next integer.
\<close>

fun generateRandomBase62 :: "env \<Rightarrow> nat \<Rightarrow> nat \<Rightarrow> string" where
  "generateRandomBase62 e pos 0 = []"
| "generateRandomBase62 e pos (Suc n) =
     charAt base62Chars
       \<lfloor>double_times e (Math_random e pos) (of_nat (length base62Chars))\<rfloor>
       @ generateRandomBase62 e (Suc pos) n"

definition validateCustomShortcode :: "js_value \<Rightarrow> string + string" where
  "validateCustomShortcode v =
     (case v of
        JString s \<Rightarrow>
          if s = [] then Inl ''Shortcode must be a non-empty string''
          else
            let trimmedShortcode = trim s in
            if length trimmedShortcode < minCustomLength
              then Inl ''Shortcode must be at least 4 characters long''
            else if length trimmedShortcode > maxCustomLength
              then Inl ''Shortcode must be at most 20 characters long''
            else if \<not> alnum_only trimmedShortcode
              then Inl ''Shortcode must contain only alphanumeric characters (a-z, A-Z, 0-9)''
            else Inr trimmedShortcode
      | _ \<Rightarrow> Inl ''Shortcode must be a non-empty string'')"

definition isShortcodeAvailable :: "env \<Rightarrow> string \<Rightarrow> exn + bool" where
  "isShortcodeAvailable e sc =
     (case Url_exists e sc of
        Inl err \<Rightarrow> Inl (Exn None ''Database error while checking shortcode availability'')
      | Inr ex \<Rightarrow> Inr (\<not> ex))"

text \<open>The error thrown when every attempt found its candidate taken.\<close>

definition allocation_failure :: exn where
  "allocation_failure = Exn None
     ''Unable to generate unique shortcode after maximum attempts. Database may be experiencing high load.''"

text \<open>
  The loop of \<open>generateUniqueShortcode\<close>. Beside the result it returns the draws it
  made, in order: the length asked for and the candidate drawn.
\<close>

function gen_loop ::
  "env \<Rightarrow> nat \<Rightarrow> nat \<Rightarrow> nat \<Rightarrow> nat \<Rightarrow> (nat \<times> string) list \<times> (exn + string)" where
  "gen_loop e maxAttemptsPerLength pos currentLength attempts =
     (if attempts < maxAttemptsPerLength * 3 then
        (let sc = generateRandomBase62 e pos currentLength in
         case isShortcodeAvailable e sc of
           Inl err \<Rightarrow> ([(currentLength, sc)], Inl err)
         | Inr True \<Rightarrow> ([(currentLength, sc)], Inr sc)
         | Inr False \<Rightarrow>
             (let r = gen_loop e maxAttemptsPerLength (pos + currentLength)
                        (if (attempts + 1) mod maxAttemptsPerLength = 0
                         then currentLength + 1 else currentLength)
                        (attempts + 1)
              in ((currentLength, sc) # fst r, snd r)))
      else ([], Inl allocation_failure))"
  by pat_completeness auto
termination
  by (relation "measure (\<lambda>(e, m, pos, len, attempts). m * 3 - attempts)") auto

declare gen_loop.simps [simp del]

definition generateUniqueShortcode ::
  "env \<Rightarrow> nat \<Rightarrow> nat \<Rightarrow> (nat \<times> string) list \<times> (exn + string)" where
  "generateUniqueShortcode e pos len = gen_loop e maxRetries pos len 0"

text \<open>The result of \<open>processShortcode\<close>: the code, or an error with its status code.\<close>

datatype sc_result = ScSuccess string | ScFailure string nat

definition processShortcode :: "env \<Rightarrow> js_value \<Rightarrow> sc_result" where
  "processShortcode e customShortcode =
     (if truthy customShortcode then
        (case validateCustomShortcode customShortcode of
           Inl err \<Rightarrow> ScFailure err 400
         | Inr sc \<Rightarrow>
             (case isShortcodeAvailable e sc of
                Inl err \<Rightarrow> ScFailure ''Internal server error during shortcode processing'' 500
              | Inr False \<Rightarrow> ScFailure ''Custom shortcode is already taken'' 409
              | Inr True \<Rightarrow> ScSuccess sc))
      else
        (case snd (generateUniqueShortcode e 0 defaultLength) of
           Inl err \<Rightarrow> ScFailure ''Internal server error during shortcode processing'' 500
         | Inr sc \<Rightarrow> ScSuccess sc))"

section \<open>The routes\<close>

text \<open>
  A handler's answer: the status and the body sent. Each handler also returns the
  documents it handed to the store for writing, in order.
\<close>

datatype body =
    Message string
  | Created string int
  | Location string
  | Stats string string int int int "click list"

record response =
  status :: nat
  body :: body

text \<open>What the redirect handler reads of the request beside the code.\<close>

record request =
  x_forwarded_for :: "string option"
  connection_remoteAddress :: "string option"
  socket_remoteAddress :: "string option"
  connection_socket_remoteAddress :: "string option"
  referer_header :: "string option"
  referrer_header :: "string option"
  user_agent_header :: "string option"

text \<open>\<open>a || b\<close> on values that are a string or \<open>undefined\<close>.\<close>

definition str_truthy :: "string option \<Rightarrow> bool" where
  "str_truthy a = (case a of None \<Rightarrow> False | Some s \<Rightarrow> s \<noteq> [])"

definition js_or :: "string option \<Rightarrow> string option \<Rightarrow> string option" where
  "js_or a b = (if str_truthy a then a else b)"

definition extractClientIP :: "request \<Rightarrow> string" where
  "extractClientIP req =
     (case x_forwarded_for req of
        Some xff \<Rightarrow>
          if xff \<noteq> [] then trim (takeWhile (\<lambda>c. c \<noteq> CHR '','') xff)
          else (case js_or (connection_remoteAddress req)
                      (js_or (socket_remoteAddress req) (connection_socket_remoteAddress req)) of
                  Some a \<Rightarrow> if a \<noteq> [] then a else ''unknown''
                | None \<Rightarrow> ''unknown'')
      | None \<Rightarrow>
          (case js_or (connection_remoteAddress req)
                 (js_or (socket_remoteAddress req) (connection_socket_remoteAddress req)) of
             Some a \<Rightarrow> if a \<noteq> [] then a else ''unknown''
           | None \<Rightarrow> ''unknown''))"

text \<open>
  \<open>req.get\<close> of Express answers both names, \<open>referer\<close> and \<open>referrer\<close>, with the
  Referrer field of the request when that is truthy and with the Referer field
  otherwise.
\<close>

definition req_get_referrer :: "request \<Rightarrow> string option" where
  "req_get_referrer req = js_or (referrer_header req) (referer_header req)"

text \<open>\<open>extractSafeHeaders\<close>: the referrer and the user agent, sanitized.\<close>

definition extractSafeHeaders :: "request \<Rightarrow> string option \<times> string option" where
  "extractSafeHeaders req =
     (let r = js_or (req_get_referrer req) (req_get_referrer req);
          ua = user_agent_header req
      in ((case r of Some s \<Rightarrow> if s \<noteq> [] then Some (sanitizeInput s 500) else None
                   | None \<Rightarrow> None),
          (case ua of Some s \<Rightarrow> if s \<noteq> [] then Some (sanitizeInput s 500) else None
                    | None \<Rightarrow> None)))"

text \<open>
  \<open>POST /shorturls\<close>. \<open>now\<close> is \<open>Date.now()\<close> when the expiry is computed and
  the document built, \<open>now_save\<close> the time the \<open>pre('save')\<close> hook reads. The rounded
  validity is a whole number of minutes; a validity that is no finite number makes an
  invalid date, which the schema refuses.
\<close>

definition post_shorturls ::
  "env \<Rightarrow> js_value \<Rightarrow> js_value \<Rightarrow> js_value \<Rightarrow> int \<Rightarrow> int \<Rightarrow> response \<times> url_doc list" where
  "post_shorturls e url validity sc now now_save =
     (case validateUrl (isURL e) (new_URL e) url of
        Inl err \<Rightarrow> (\<lparr>status = 400, body = Message err\<rparr>, [])
      | Inr validUrl \<Rightarrow>
     (case validateValidity (StringToNumber e) validity defaultValidityMinutes of
        Inl err \<Rightarrow> (\<lparr>status = 400, body = Message err\<rparr>, [])
      | Inr validMinutes \<Rightarrow>
     (case processShortcode e sc of
        ScFailure err statusCode \<Rightarrow>
          (\<lparr>status = (if statusCode = 0 then 500 else statusCode), body = Message err\<rparr>, [])
      | ScSuccess code \<Rightarrow>
     (case validMinutes of
        Fin minutes \<Rightarrow>
          (let expiry = now + trunc (minutes * 60 * 1000);
               urlDoc = \<lparr>shortcode = code, originalUrl = validUrl, createdAt = now,
                          expiryAt = expiry, clickCount = 0, clicks = []\<rparr>;
               saved = Url_save e True now_save urlDoc
           in case snd saved of
                Inr u \<Rightarrow>
                  (\<lparr>status = 201, body = Created (config_hostname e @ ''/'' @ code) expiry\<rparr>,
                   fst saved)
              | Inl err \<Rightarrow>
                  if err_code err = Some 11000
                    then (\<lparr>status = 409, body = Message ''Shortcode already exists''\<rparr>, fst saved)
                  else (\<lparr>status = 500, body = Message ''Internal server error''\<rparr>, fst saved))
      | _ \<Rightarrow> (\<lparr>status = 500, body = Message ''Internal server error''\<rparr>, [])))))"

text \<open>
  The click the redirect handler builds from the request. A failure of the geo lookup
  is caught where it happens and leaves the country \<open>null\<close>.
\<close>

definition clickData :: "env \<Rightarrow> request \<Rightarrow> int \<Rightarrow> click" where
  "clickData e req now_click =
     (let clientIP = extractClientIP req;
          headers = extractSafeHeaders req;
          geo_country = (case geoip_lookup e clientIP of Some (Some c) \<Rightarrow> Some c | _ \<Rightarrow> None)
      in \<lparr>ts = now_click, ip = clientIP, referrer = fst headers,
          userAgent = snd headers, country = geo_country\<rparr>)"

text \<open>
  \<open>GET /:shortcode\<close>. \<open>now\<close> is the time \<open>isExpired\<close> reads, \<open>now_click\<close> the
  time stamp of the click. A failure of the audit log is caught where it happens and
  changes nothing of the answer.
\<close>

definition get_redirect ::
  "env \<Rightarrow> string \<Rightarrow> request \<Rightarrow> int \<Rightarrow> int \<Rightarrow> response \<times> url_doc list" where
  "get_redirect e sc req now now_click =
     (case Url_findOne e sc of
        Inl err \<Rightarrow> (\<lparr>status = 500, body = Message ''Internal server error''\<rparr>, [])
      | Inr None \<Rightarrow> (\<lparr>status = 404, body = Message ''shortcode not found''\<rparr>, [])
      | Inr (Some urlDoc) \<Rightarrow>
          if isExpired urlDoc now
            then (\<lparr>status = 410, body = Message ''link expired''\<rparr>, [])
          else
            (let saved = addClick e now_click urlDoc (clickData e req now_click)
             in case snd saved of
                  Inl err \<Rightarrow>
                    (\<lparr>status = 500, body = Message ''Internal server error''\<rparr>, fst saved)
                | Inr u \<Rightarrow>
                    (\<lparr>status = 302, body = Location (originalUrl urlDoc)\<rparr>, fst saved)))"


section \<open>Notions of the specification\<close>

text \<open>
  The definitions of this section follow the words of the specification, not the code;
  the theorems compare the code with them.

  A custom code is well formed when it is a string of 4 to 20 alphanumeric characters
  after trimming.
\<close>

definition custom_syntax_ok :: "js_value \<Rightarrow> bool" where
  "custom_syntax_ok v =
     (case v of
        JString s \<Rightarrow> 4 \<le> length (trim s) \<and> length (trim s) \<le> 20 \<and> list_all is_alnum (trim s)
      | _ \<Rightarrow> False)"

text \<open>Decimal notation, and an IPv4 address in dotted decimal notation.\<close>

fun dec :: "nat \<Rightarrow> string" where
  "dec n = (if n < 10 then [char_of (48 + n)] else dec (n div 10) @ [char_of (48 + n mod 10)])"

declare dec.simps [simp del]

definition ipv4 :: "nat \<Rightarrow> nat \<Rightarrow> nat \<Rightarrow> nat \<Rightarrow> string" where
  "ipv4 a b c d = dec a @ ''.'' @ dec b @ ''.'' @ dec c @ ''.'' @ dec d"

text \<open>
  The hosts the guard is to refuse: \<open>localhost\<close>, \<open>127.0.0.1\<close>, \<open>0.0.0.0\<close>, every
  host beginning \<open>10.\<close> or \<open>192.168.\<close>, and the addresses \<open>172.16.0.0\<close> to
  \<open>172.31.255.255\<close>.
\<close>

definition guarded_host :: "string \<Rightarrow> bool" where
  "guarded_host h =
     (h = ''localhost'' \<or> h = ''127.0.0.1'' \<or> h = ''0.0.0.0'' \<or>
      prefix ''10.'' h \<or> prefix ''192.168.'' h \<or>
      (\<exists>b \<in> {16..31}. \<exists>c \<in> {0..255}. \<exists>d \<in> {0..255}. h = ipv4 172 b c d))"

text \<open>A record after its creation and the clicks \<open>cs\<close> appended one by one.\<close>

definition record_after :: "url_doc \<Rightarrow> click list \<Rightarrow> url_doc" where
  "record_after doc cs = foldl push_click doc cs"

section \<open>Sample environments\<close>

text \<open>
  An empty store that accepts every write; \<open>Math.random()\<close> returns 0 throughout,
  and the product of 0 and a double is exact; the libraries accept the one URL
  \<open>https://example.com/page\<close>.
\<close>

definition env_free :: env where
  "env_free = \<lparr>
     StringToNumber = (\<lambda>s. if s = ''2'' then Fin 2 else if s = ''10'' then Fin 10 else NaN),
     Math_random = (\<lambda>n. 0),
     double_times = (\<lambda>a b. a * b),
     isURL = (\<lambda>s. s = ''https://example.com/page''),
     new_URL = (\<lambda>s. if s = ''https://example.com/page''
                     then Some \<lparr>hostname = ''example.com'', protocol = ''https:''\<rparr> else None),
     geoip_lookup = (\<lambda>s. Some None),
     config_hostname = ''http://localhost:3000'',
     Url_exists = (\<lambda>s. Inr False),
     Url_findOne = (\<lambda>s. Inr None),
     Url_write = (\<lambda>d. Inr ())\<rparr>"

text \<open>
  Libraries that accept two URLs of private hosts as well formed, so that the guard of
  \<open>validateUrl\<close> is what decides on them.
\<close>

definition env_private_urls :: env where
  "env_private_urls = env_free\<lparr>
     isURL := (\<lambda>s. True),
     new_URL := (\<lambda>s. if s = ''http://localhost/admin''
                      then Some \<lparr>hostname = ''localhost'', protocol = ''http:''\<rparr>
                    else if s = ''http://172.20.1.1/''
                      then Some \<lparr>hostname = ''172.20.1.1'', protocol = ''http:''\<rparr>
                    else None)\<rparr>"

text \<open>A store in which every code is taken.\<close>

definition env_all_taken :: env where
  "env_all_taken = env_free\<lparr>Url_exists := (\<lambda>s. Inr True)\<rparr>"

text \<open>
  A store that reports every code free and then rejects the write with the
  duplicate-key error: another writer took the code in between.
\<close>

definition env_race :: env where
  "env_race = env_free\<lparr>Url_write := (\<lambda>d. Inl (Exn (Some 11000) ''E11000 duplicate key error''))\<rparr>"

text \<open>A stored record with 25 clicks, expiring at time 5000, and a store holding it.\<close>

definition sample_click :: "nat \<Rightarrow> click" where
  "sample_click i = \<lparr>ts = int i, ip = ''203.0.113.9'', referrer = None, userAgent = None,
     country = None\<rparr>"

definition sample_doc :: url_doc where
  "sample_doc = \<lparr>shortcode = ''abcd'', originalUrl = ''https://example.com/page'',
     createdAt = 0, expiryAt = 5000, clickCount = 25, clicks = map sample_click [0..<25]\<rparr>"

definition env_stored :: env where
  "env_stored = env_free\<lparr>Url_findOne := (\<lambda>s. if s = ''abcd'' then Inr (Some sample_doc) else Inr None)\<rparr>"

text \<open>The same store when it rejects every write.\<close>

definition env_write_fails :: env where
  "env_write_fails = env_stored\<lparr>Url_write := (\<lambda>d. Inl (Exn None ''connection lost''))\<rparr>"

definition sample_request :: request where
  "sample_request = \<lparr>x_forwarded_for = None, connection_remoteAddress = Some ''203.0.113.9'',
     socket_remoteAddress = None, connection_socket_remoteAddress = None,
     referer_header = None, referrer_header = None, user_agent_header = Some ''curl/8.0''\<rparr>"

section \<open>The generator's loop\<close>

lemma gen_loop_stop: "\<not> a < m * 3 \<Longrightarrow> gen_loop e m pos cl a = ([], Inl allocation_failure)"
  by (subst gen_loop.simps) simp

lemma gen_loop_error:
  "a < m * 3 \<Longrightarrow> isShortcodeAvailable e (generateRandomBase62 e pos cl) = Inl err \<Longrightarrow>
   gen_loop e m pos cl a = ([(cl, generateRandomBase62 e pos cl)], Inl err)"
  by (subst gen_loop.simps) (simp add: Let_def)

lemma gen_loop_found:
  "a < m * 3 \<Longrightarrow> isShortcodeAvailable e (generateRandomBase62 e pos cl) = Inr True \<Longrightarrow>
   gen_loop e m pos cl a =
     ([(cl, generateRandomBase62 e pos cl)], Inr (generateRandomBase62 e pos cl))"
  by (subst gen_loop.simps) (simp add: Let_def)

lemma gen_loop_retry:
  "a < m * 3 \<Longrightarrow> isShortcodeAvailable e (generateRandomBase62 e pos cl) = Inr False \<Longrightarrow>
   gen_loop e m pos cl a =
     ((cl, generateRandomBase62 e pos cl) #
        fst (gen_loop e m (pos + cl) (if (a + 1) mod m = 0 then cl + 1 else cl) (a + 1)),
      snd (gen_loop e m (pos + cl) (if (a + 1) mod m = 0 then cl + 1 else cl) (a + 1)))"
  by (subst gen_loop.simps) (simp add: Let_def)

lemma gen_loop_cases:
  fixes a m :: nat and e :: env
  obtains (stop) "\<not> a < m * 3"
  | (error) err where "a < m * 3" "isShortcodeAvailable e (generateRandomBase62 e pos cl) = Inl err"
  | (found) "a < m * 3" "isShortcodeAvailable e (generateRandomBase62 e pos cl) = Inr True"
  | (retry) "a < m * 3" "isShortcodeAvailable e (generateRandomBase62 e pos cl) = Inr False"
  by (cases "a < m * 3"; cases "isShortcodeAvailable e (generateRandomBase62 e pos cl)") auto

lemma gen_loop_lengths:
  "cl = len + a div m \<Longrightarrow> prefix (map fst (fst (gen_loop e m pos cl a)))
     (map (\<lambda>k. len + k div m) [a..<m * 3])"
proof (induction e m pos cl a rule: gen_loop.induct)
  case (1 e m pos cl a)
  show ?case
  proof (cases rule: gen_loop_cases[where a=a and m=m and e=e and pos=pos and cl=cl])
    case stop
    then show ?thesis by (simp add: gen_loop_stop)
  next
    case (error err)
    then show ?thesis using "1.prems" by (simp add: gen_loop_error upt_conv_Cons)
  next
    case found
    then show ?thesis using "1.prems" by (simp add: gen_loop_found upt_conv_Cons)
  next
    case retry
    have nxt: "(if (a + 1) mod m = 0 then cl + 1 else cl) = len + (a + 1) div m"
      using "1.prems" by (simp add: div_Suc)
    have ih: "prefix (map fst (fst (gen_loop e m (pos + cl) (if (a + 1) mod m = 0 then cl + 1 else cl) (a + 1))))
            (map (\<lambda>k. len + k div m) [a + 1..<m * 3])"
      by (rule "1.IH"[OF retry(1) refl retry(2) refl nxt])
    have upt: "[a..<m * 3] = a # [a + 1..<m * 3]"
      using retry(1) by (simp add: upt_conv_Cons)
    have hd: "fst (gen_loop e m pos cl a) =
        (cl, generateRandomBase62 e pos cl) #
          fst (gen_loop e m (pos + cl) (if (a + 1) mod m = 0 then cl + 1 else cl) (a + 1))"
      by (subst gen_loop_retry[OF retry]) (rule fst_conv)
    show ?thesis
      unfolding hd upt using ih "1.prems" by (simp only: list.map fst_conv prefix_Cons) simp
  qed
qed


lemma replicate5: "replicate 5 x = [x, x, x, x, x]"
  by (simp add: numeral_eq_Suc)

lemma upt15: "[0..<15] = [0,1,2,3,4,5,6,7,8,9,10,11,12,13,14::nat]"
  by (simp add: upt_conv_Cons)

lemma tiers: "map (\<lambda>k. len + k div 5) [0..<15] = replicate 5 len @ replicate 5 (len + 1) @ replicate 5 (len + 2)"
  unfolding upt15 replicate5 by simp


lemma isShortcodeAvailable_error:
  "isShortcodeAvailable e sc = Inl err \<Longrightarrow> err \<noteq> allocation_failure"
  by (auto simp: isShortcodeAvailable_def allocation_failure_def split: sum.splits)

lemma gen_loop_length: "length (fst (gen_loop e m pos cl a)) \<le> m * 3 - a"
proof (induction e m pos cl a rule: gen_loop.induct)
  case (1 e m pos cl a)
  show ?case
  proof (cases rule: gen_loop_cases[where a=a and m=m and e=e and pos=pos and cl=cl])
    case stop
    then show ?thesis by (simp add: gen_loop_stop)
  next
    case (error err)
    then show ?thesis by (simp add: gen_loop_error)
  next
    case found
    then show ?thesis by (simp add: gen_loop_found)
  next
    case retry
    have "length (fst (gen_loop e m (pos + cl) (if (a + 1) mod m = 0 then cl + 1 else cl) (a + 1)))
            \<le> m * 3 - (a + 1)"
      by (rule "1.IH"[OF retry(1) refl retry(2) refl])
    then show ?thesis using retry(1) by (subst gen_loop_retry[OF retry]) simp
  qed
qed

lemma gen_loop_fatal:
  "snd (gen_loop e m pos cl a) = Inl allocation_failure \<longleftrightarrow>
     length (fst (gen_loop e m pos cl a)) = m * 3 - a \<and>
     (\<forall>d \<in> set (fst (gen_loop e m pos cl a)). isShortcodeAvailable e (snd d) = Inr False)"
proof (induction e m pos cl a rule: gen_loop.induct)
  case (1 e m pos cl a)
  show ?case
  proof (cases rule: gen_loop_cases[where a=a and m=m and e=e and pos=pos and cl=cl])
    case stop
    then show ?thesis by (simp add: gen_loop_stop)
  next
    case (error err)
    then show ?thesis using isShortcodeAvailable_error[OF error(2)] by (simp add: gen_loop_error)
  next
    case found
    then show ?thesis by (simp add: gen_loop_found)
  next
    case retry
    note ih = "1.IH"[OF retry(1) refl retry(2) refl]
    show ?thesis using retry ih by (subst (1 2 3) gen_loop_retry[OF retry]) auto
  qed
qed

lemma gen_loop_earlier_taken:
  "\<forall>d \<in> set (butlast (fst (gen_loop e m pos cl a))). isShortcodeAvailable e (snd d) = Inr False"
proof (induction e m pos cl a rule: gen_loop.induct)
  case (1 e m pos cl a)
  show ?case
  proof (cases rule: gen_loop_cases[where a=a and m=m and e=e and pos=pos and cl=cl])
    case stop
    then show ?thesis by (simp add: gen_loop_stop)
  next
    case (error err)
    then show ?thesis by (simp add: gen_loop_error)
  next
    case found
    then show ?thesis by (simp add: gen_loop_found)
  next
    case retry
    note ih = "1.IH"[OF retry(1) refl retry(2) refl]
    show ?thesis using retry ih by (subst gen_loop_retry[OF retry]) (auto split: if_splits)
  qed
qed

lemma gen_loop_success:
  "snd (gen_loop e m pos cl a) = Inr sc \<Longrightarrow>
     fst (gen_loop e m pos cl a) \<noteq> [] \<and> snd (last (fst (gen_loop e m pos cl a))) = sc \<and>
     isShortcodeAvailable e sc = Inr True"
proof (induction e m pos cl a rule: gen_loop.induct)
  case (1 e m pos cl a)
  show ?case
  proof (cases rule: gen_loop_cases[where a=a and m=m and e=e and pos=pos and cl=cl])
    case stop
    then show ?thesis using "1.prems" by (simp add: gen_loop_stop)
  next
    case (error err)
    then show ?thesis using "1.prems" by (simp add: gen_loop_error)
  next
    case found
    then show ?thesis using "1.prems" by (auto simp add: gen_loop_found)
  next
    case retry
    have "snd (gen_loop e m (pos + cl) (if (a + 1) mod m = 0 then cl + 1 else cl) (a + 1)) = Inr sc"
      using "1.prems" by (subst (asm) gen_loop_retry[OF retry]) simp
    from "1.IH"[OF retry(1) refl retry(2) refl this]
    show ?thesis by (subst (1 2) gen_loop_retry[OF retry]) simp
  qed
qed

text \<open>
  C4. \<open>generateUniqueShortcode\<close> asks for the lengths \<open>len\<close> five times, then
  \<open>len + 1\<close> five times, then \<open>len + 2\<close> five times, and stops earlier at the first
  candidate that is available or at an error of the store: the lengths of its draws are
  a prefix of that list, so there are at most 15 draws and at most 5 at each of at
  most 3 lengths. Every draw but the last found its candidate taken. It throws the
  allocation failure exactly when it made all 15 draws and each found its candidate
  taken; when it returns a code, that code is the last draw and was reported available.
  The loop is a total function, so it ends on every store and every random source.
\<close>

theorem generateUniqueShortcode_tiers:
  "prefix (map fst (fst (generateUniqueShortcode e pos len)))
          (replicate 5 len @ replicate 5 (len + 1) @ replicate 5 (len + 2)) \<and>
   length (fst (generateUniqueShortcode e pos len)) \<le> 15 \<and>
   (\<forall>d \<in> set (butlast (fst (generateUniqueShortcode e pos len))).
      isShortcodeAvailable e (snd d) = Inr False) \<and>
   (snd (generateUniqueShortcode e pos len) = Inl allocation_failure \<longleftrightarrow>
      length (fst (generateUniqueShortcode e pos len)) = 15 \<and>
      (\<forall>d \<in> set (fst (generateUniqueShortcode e pos len)).
         isShortcodeAvailable e (snd d) = Inr False)) \<and>
   (\<forall>sc. snd (generateUniqueShortcode e pos len) = Inr sc \<longrightarrow>
      snd (last (fst (generateUniqueShortcode e pos len))) = sc \<and>
      isShortcodeAvailable e sc = Inr True)"
proof -
  have a: "prefix (map fst (fst (gen_loop e 5 pos len 0)))
          (replicate 5 len @ replicate 5 (len + 1) @ replicate 5 (len + 2))"
  proof -
    have "prefix (map fst (fst (gen_loop e 5 pos len 0))) (map (\<lambda>k. len + k div 5) [0..<15])"
      using gen_loop_lengths[of len len 0 5 e pos] by simp
    then show ?thesis unfolding tiers .
  qed
  have b: "length (fst (gen_loop e 5 pos len 0)) \<le> 15"
    using gen_loop_length[of e 5 pos len 0] by simp
  have c: "snd (gen_loop e 5 pos len 0) = Inl allocation_failure \<longleftrightarrow>
      length (fst (gen_loop e 5 pos len 0)) = 15 \<and>
      (\<forall>d \<in> set (fst (gen_loop e 5 pos len 0)). isShortcodeAvailable e (snd d) = Inr False)"
    using gen_loop_fatal[of e 5 pos len 0] by simp
  show ?thesis
    unfolding generateUniqueShortcode_def maxRetries_def
    using a b c gen_loop_earlier_taken[of e 5 pos len 0] gen_loop_success[of e 5 pos len 0]
    by blast
qed

theorem generateUniqueShortcode_tiers_witness:
  "length (fst (generateUniqueShortcode env_all_taken 0 6)) = 15 \<and>
   snd (generateUniqueShortcode env_all_taken 0 6) = Inl allocation_failure"
proof -
  have run: "fst (generateUniqueShortcode env_all_taken 0 6) =
      replicate 5 (6, ''000000'') @ replicate 5 (7, ''0000000'') @ replicate 5 (8, ''00000000'')"
    by code_simp
  have len: "length (fst (generateUniqueShortcode env_all_taken 0 6)) = 15"
    unfolding run by simp
  have taken: "\<forall>d \<in> set (fst (generateUniqueShortcode env_all_taken 0 6)).
      isShortcodeAvailable env_all_taken (snd d) = Inr False"
    unfolding run by (simp add: isShortcodeAvailable_def env_all_taken_def)
  from generateUniqueShortcode_tiers[of env_all_taken 0 6] len taken show ?thesis
    by blast
qed

section \<open>Custom codes\<close>

text \<open>
  C10. A request whose \<open>shortcode\<close> field is the empty string is handled as one
  without the field: \<open>processShortcode\<close> skips the custom path and returns what the
  generator returns, never a 400, and the whole creation handler answers as it does
  when the field is absent.
\<close>

theorem processShortcode_empty_string:
  "processShortcode e (JString []) = processShortcode e JUndefined \<and>
   processShortcode e (JString []) = processShortcode e JNull \<and>
   processShortcode e (JString []) =
     (case snd (generateUniqueShortcode e 0 defaultLength) of
        Inl err \<Rightarrow> ScFailure ''Internal server error during shortcode processing'' 500
      | Inr sc \<Rightarrow> ScSuccess sc) \<and>
   (\<forall>msg. processShortcode e (JString []) \<noteq> ScFailure msg 400) \<and>
   post_shorturls e url validity (JString []) now now_save =
     post_shorturls e url validity JUndefined now now_save"
  by (simp add: processShortcode_def post_shorturls_def split: sum.splits)

theorem processShortcode_empty_string_witness:
  "processShortcode env_free (JString []) = ScSuccess ''000000''"
proof -
  have "snd (generateUniqueShortcode env_free 0 defaultLength) = Inr ''000000''"
    by code_simp
  moreover have "processShortcode env_free (JString []) =
     (case snd (generateUniqueShortcode env_free 0 defaultLength) of
        Inl err \<Rightarrow> ScFailure ''Internal server error during shortcode processing'' 500
      | Inr sc \<Rightarrow> ScSuccess sc)"
    using processShortcode_empty_string[of env_free] by blast
  ultimately show ?thesis by simp
qed

lemma trim_Nil: "trim [] = []"
  by (simp add: trim_def)

lemma validateCustomShortcode_ok:
  "custom_syntax_ok v \<Longrightarrow> \<exists>s. v = JString s \<and> validateCustomShortcode v = Inr (trim s)"
  by (cases v) (auto simp: custom_syntax_ok_def validateCustomShortcode_def
      minCustomLength_def maxCustomLength_def alnum_only_def Let_def trim_Nil)

lemma validateCustomShortcode_bad:
  "\<not> custom_syntax_ok v \<Longrightarrow> \<exists>msg. validateCustomShortcode v = Inl msg"
  by (cases v) (auto simp: custom_syntax_ok_def validateCustomShortcode_def
      minCustomLength_def maxCustomLength_def alnum_only_def Let_def)


text \<open>
  C8. For a custom code that is provided (the value is truthy): a code that is not a
  string of 4 to 20 alphanumeric characters after trimming is refused with status 400,
  and a well-formed code that the store reports as existing is refused with status 409
  and the message of a taken code; the creation handler passes both statuses on.
\<close>

theorem custom_code_invalid_or_taken:
  assumes "truthy v"
  shows "(\<not> custom_syntax_ok v \<longrightarrow>
            (\<exists>msg. processShortcode e v = ScFailure msg 400)) \<and>
         (\<forall>s. v = JString s \<and> custom_syntax_ok v \<and> Url_exists e (trim s) = Inr True \<longrightarrow>
            processShortcode e v = ScFailure ''Custom shortcode is already taken'' 409) \<and>
         (\<forall>u m. validateUrl (isURL e) (new_URL e) url = Inr u \<and>
            validateValidity (StringToNumber e) validity defaultValidityMinutes = Inr m \<longrightarrow>
            (\<not> custom_syntax_ok v \<longrightarrow>
               status (fst (post_shorturls e url validity v now now_save)) = 400) \<and>
            (\<forall>s. v = JString s \<and> custom_syntax_ok v \<and> Url_exists e (trim s) = Inr True \<longrightarrow>
               post_shorturls e url validity v now now_save =
                 (\<lparr>status = 409, body = Message ''Custom shortcode is already taken''\<rparr>, [])))"
proof -
  have bad: "\<exists>msg. processShortcode e v = ScFailure msg 400" if "\<not> custom_syntax_ok v"
    using validateCustomShortcode_bad[OF that] assms by (auto simp: processShortcode_def)
  have taken: "processShortcode e v = ScFailure ''Custom shortcode is already taken'' 409"
    if "v = JString s" "custom_syntax_ok v" "Url_exists e (trim s) = Inr True" for s
    using validateCustomShortcode_ok[OF that(2)] that assms
    by (auto simp: processShortcode_def isShortcodeAvailable_def)
  have route_bad: "status (fst (post_shorturls e url validity v now now_save)) = 400"
    if "validateUrl (isURL e) (new_URL e) url = Inr u"
       "validateValidity (StringToNumber e) validity defaultValidityMinutes = Inr m"
       "\<not> custom_syntax_ok v" for u m
    using bad[OF that(3)] that(1,2) by (auto simp: post_shorturls_def)
  have route_taken: "post_shorturls e url validity v now now_save =
      (\<lparr>status = 409, body = Message ''Custom shortcode is already taken''\<rparr>, [])"
    if "validateUrl (isURL e) (new_URL e) url = Inr u"
       "validateValidity (StringToNumber e) validity defaultValidityMinutes = Inr m"
       "v = JString s" "custom_syntax_ok v" "Url_exists e (trim s) = Inr True" for u m s
    using taken[OF that(3,4,5)] that(1,2) by (simp add: post_shorturls_def)
  show ?thesis using bad taken route_bad route_taken by blast
qed

theorem custom_code_invalid_or_taken_witness:
  "truthy (JString ''ab'') \<and> truthy (JString ''abcd'') \<and>
   status (fst (post_shorturls env_all_taken (JString ''https://example.com/page'') JUndefined
     (JString ''ab'') 1000 1001)) = 400 \<and>
   post_shorturls env_all_taken (JString ''https://example.com/page'') JUndefined
     (JString ''abcd'') 1000 1001 =
       (\<lparr>status = 409, body = Message ''Custom shortcode is already taken''\<rparr>, [])"
proof -
  have u: "validateUrl (isURL env_all_taken) (new_URL env_all_taken)
      (JString ''https://example.com/page'') = Inr ''https://example.com/page''"
    by code_simp
  have m: "validateValidity (StringToNumber env_all_taken) JUndefined defaultValidityMinutes =
      Inr (Fin 30)"
    by (simp add: validateValidity_def defaultValidityMinutes_def)
  have bad: "\<not> custom_syntax_ok (JString ''ab'')" by code_simp
  have ok: "custom_syntax_ok (JString ''abcd'')" by code_simp
  have tr: "trim ''abcd'' = ''abcd''" by code_simp
  have ex: "Url_exists env_all_taken (trim ''abcd'') = Inr True"
    by (simp add: env_all_taken_def)
  have t1: "truthy (JString ''ab'')" and t2: "truthy (JString ''abcd'')" by simp_all
  from custom_code_invalid_or_taken[OF t1, of env_all_taken "JString ''https://example.com/page''"
      JUndefined 1000 1001] u m bad
  have a: "status (fst (post_shorturls env_all_taken (JString ''https://example.com/page'')
      JUndefined (JString ''ab'') 1000 1001)) = 400" by blast
  from custom_code_invalid_or_taken[OF t2, of env_all_taken "JString ''https://example.com/page''"
      JUndefined 1000 1001] u m ok ex
  have b: "post_shorturls env_all_taken (JString ''https://example.com/page'') JUndefined
     (JString ''abcd'') 1000 1001 =
       (\<lparr>status = 409, body = Message ''Custom shortcode is already taken''\<rparr>, [])" by blast
  show ?thesis using a b t1 t2 by blast
qed

section \<open>The validity in minutes\<close>



text \<open>
  The creation handler on a validity of 0.4 minutes: the validity passes the check
  \<open>> 0\<close>, is rounded to 0, the expiry is the time of the request, and the
  \<open>pre('save')\<close> hook refuses the document.
\<close>

lemma post_shorturls_validity_below_half:
  "post_shorturls env_free (JString ''https://example.com/page'') (JNumber (Fin (2 / 5)))
     JUndefined 1000 1000 =
       (\<lparr>status = 500, body = Message ''Internal server error''\<rparr>, [])"
  by code_simp




section \<open>The redirect\<close>

text \<open>
  C2. When the store returns a record for the code, the record is expired exactly when
  the time read is greater than its \<open>expiryAt\<close>; the handler then answers 410 with
  the message of an expired link and writes nothing; it answers 410 in no other case,
  and never 404.
\<close>

theorem redirect_expired_is_410:
  assumes "Url_findOne e sc = Inr (Some doc)"
  shows "(isExpired doc now \<longleftrightarrow> now > expiryAt doc) \<and>
         (now > expiryAt doc \<longrightarrow>
            get_redirect e sc req now now_click =
              (\<lparr>status = 410, body = Message ''link expired''\<rparr>, [])) \<and>
         (status (fst (get_redirect e sc req now now_click)) = 410 \<longleftrightarrow> now > expiryAt doc) \<and>
         status (fst (get_redirect e sc req now now_click)) \<noteq> 404"
  using assms
  by (auto simp: get_redirect_def isExpired_def Let_def split: sum.splits)

theorem redirect_expired_is_410_witness:
  "Url_findOne env_stored ''abcd'' = Inr (Some sample_doc) \<and> 5001 > expiryAt sample_doc \<and>
   get_redirect env_stored ''abcd'' sample_request 5001 5002 =
     (\<lparr>status = 410, body = Message ''link expired''\<rparr>, [])"
proof -
  have f: "Url_findOne env_stored ''abcd'' = Inr (Some sample_doc)"
    by (simp add: env_stored_def)
  have x: "5001 > expiryAt sample_doc"
    by (simp add: sample_doc_def)
  from redirect_expired_is_410[OF f, of 5001 sample_request 5002] x f show ?thesis
    by blast
qed

text \<open>
  C7. The handler answers 302 only when the store returned a record, the record was not
  expired, and the write of the record with the click appended succeeded; that write is
  the one write made. When that write is rejected the answer is 500 and no redirect is
  sent. When no live record was read, nothing is written.
\<close>

theorem redirect_only_after_click_recorded:
  "(status (fst (get_redirect e sc req now now_click)) = 302 \<longrightarrow>
      (\<exists>doc. Url_findOne e sc = Inr (Some doc) \<and> \<not> isExpired doc now \<and>
         Url_write e (push_click doc (clickData e req now_click)) = Inr () \<and>
         get_redirect e sc req now now_click =
           (\<lparr>status = 302, body = Location (originalUrl doc)\<rparr>,
            [push_click doc (clickData e req now_click)]))) \<and>
   (\<forall>doc err. Url_findOne e sc = Inr (Some doc) \<and> \<not> isExpired doc now \<and>
      Url_write e (push_click doc (clickData e req now_click)) = Inl err \<longrightarrow>
        get_redirect e sc req now now_click =
          (\<lparr>status = 500, body = Message ''Internal server error''\<rparr>,
           [push_click doc (clickData e req now_click)])) \<and>
   ((\<forall>doc. Url_findOne e sc = Inr (Some doc) \<longrightarrow> isExpired doc now) \<longrightarrow>
      snd (get_redirect e sc req now now_click) = [])"
proof (cases "Url_findOne e sc")
  case (Inl err)
  then show ?thesis by (simp add: get_redirect_def)
next
  case (Inr found)
  show ?thesis
  proof (cases found)
    case None
    then show ?thesis using Inr by (simp add: get_redirect_def)
  next
    case (Some doc)
    show ?thesis
    proof (cases "isExpired doc now")
      case True
      then show ?thesis using Inr Some by (simp add: get_redirect_def)
    next
      case False
      have live: "get_redirect e sc req now now_click =
          (case Url_write e (push_click doc (clickData e req now_click)) of
             Inl err \<Rightarrow> (\<lparr>status = 500, body = Message ''Internal server error''\<rparr>,
                        [push_click doc (clickData e req now_click)])
           | Inr u \<Rightarrow> (\<lparr>status = 302, body = Location (originalUrl doc)\<rparr>,
                      [push_click doc (clickData e req now_click)]))"
        using Inr Some False by (simp add: get_redirect_def addClick_def Url_save_def Let_def split: sum.splits)
      show ?thesis
      proof (cases "Url_write e (push_click doc (clickData e req now_click))")
        case (Inl err)
        then show ?thesis using Inr Some False live by simp
      next
        case (Inr u)
        then show ?thesis using \<open>Url_findOne e sc = Inr found\<close> Some False live by simp
      qed
    qed
  qed
qed

theorem redirect_only_after_click_recorded_witness:
  "Url_findOne env_write_fails ''abcd'' = Inr (Some sample_doc) \<and>
   \<not> isExpired sample_doc 4000 \<and>
   status (fst (get_redirect env_write_fails ''abcd'' sample_request 4000 4001)) = 500"
proof -
  have f: "Url_findOne env_write_fails ''abcd'' = Inr (Some sample_doc)"
    by (simp add: env_write_fails_def env_stored_def)
  have x: "\<not> isExpired sample_doc 4000"
    by (simp add: isExpired_def sample_doc_def)
  have w: "Url_write env_write_fails
      (push_click sample_doc (clickData env_write_fails sample_request 4001)) =
        Inl (Exn None ''connection lost'')"
    by (simp add: env_write_fails_def)
  have a: "get_redirect env_write_fails ''abcd'' sample_request 4000 4001 =
      (\<lparr>status = 500, body = Message ''Internal server error''\<rparr>,
       [push_click sample_doc (clickData env_write_fails sample_request 4001)])"
    by (rule redirect_only_after_click_recorded[of env_write_fails "''abcd''" sample_request
          4000 4001, THEN conjunct2, THEN conjunct1, rule_format, OF conjI[OF f conjI[OF x w]]])
  show ?thesis unfolding a using f x by simp
qed

section \<open>Creation and the duplicate-key error\<close>

text \<open>
  C1, as stated, fails for a generated code: the request carries no custom code, the
  generator draws \<open>000000\<close>, the store reports it free and then rejects the write with
  the duplicate-key error; the handler answers 409 after that one write, with no second
  draw and no second write.
\<close>

theorem generated_code_duplicate_key_counterexample:
  "status (fst (post_shorturls env_race (JString ''https://example.com/page'') JUndefined
      JUndefined 1000 1001)) = 409 \<and>
   body (fst (post_shorturls env_race (JString ''https://example.com/page'') JUndefined
      JUndefined 1000 1001)) = Message ''Shortcode already exists'' \<and>
   map shortcode (snd (post_shorturls env_race (JString ''https://example.com/page'') JUndefined
      JUndefined 1000 1001)) = [''000000'']"
  by code_simp

text \<open>
  C1, amended. The creation handler hands at most one document to the store, whose code
  is the one \<open>processShortcode\<close> returned, custom or generated; when the store rejects
  that write with the duplicate-key error (code 11000), the answer is 409 with the
  message that the code already exists, and nothing is retried.
\<close>

theorem duplicate_key_conflict_no_retry:
  "length (snd (post_shorturls e url validity sc now now_save)) \<le> 1 \<and>
   (\<forall>doc \<in> set (snd (post_shorturls e url validity sc now now_save)).
      processShortcode e sc = ScSuccess (shortcode doc) \<and>
      (\<forall>err. Url_write e doc = Inl err \<and> err_code err = Some 11000 \<longrightarrow>
         fst (post_shorturls e url validity sc now now_save) =
           \<lparr>status = 409, body = Message ''Shortcode already exists''\<rparr>))"
  by (auto simp: post_shorturls_def Url_save_def Let_def
      split: sum.splits sc_result.splits jsnum.splits)

theorem duplicate_key_conflict_no_retry_witness:
  "fst (post_shorturls env_race (JString ''https://example.com/page'') JUndefined
      (JString ''abcd'') 1000 1001) =
     \<lparr>status = 409, body = Message ''Shortcode already exists''\<rparr>"
proof -
  let ?doc = "\<lparr>shortcode = ''abcd'', originalUrl = ''https://example.com/page'',
     createdAt = 1000, expiryAt = 1801000, clickCount = 0, clicks = []\<rparr>"
  have w: "snd (post_shorturls env_race (JString ''https://example.com/page'') JUndefined
      (JString ''abcd'') 1000 1001) = [?doc]"
    by code_simp
  have d: "Url_write env_race ?doc = Inl (Exn (Some 11000) ''E11000 duplicate key error'')"
    by (simp add: env_race_def)
  have m: "?doc \<in> set (snd (post_shorturls env_race (JString ''https://example.com/page'')
      JUndefined (JString ''abcd'') 1000 1001))"
    unfolding w by simp
  have c: "err_code (Exn (Some 11000) ''E11000 duplicate key error'') = Some 11000"
    by simp
  show ?thesis
    by (rule duplicate_key_conflict_no_retry[of env_race "JString ''https://example.com/page''"
        JUndefined "JString ''abcd''" 1000 1001, THEN conjunct2, rule_format, OF m,
        THEN conjunct2, rule_format, OF conjI[OF d c]])
qed

section \<open>The statistics\<close>









section \<open>The URL guard\<close>

lemma dec_172: "dec 172 = ''172''"
  by code_simp

lemma dec_16_31:
  "map dec [16..<32] = [''16'', ''17'', ''18'', ''19'', ''20'', ''21'', ''22'', ''23'',
     ''24'', ''25'', ''26'', ''27'', ''28'', ''29'', ''30'', ''31'']"
  by code_simp

lemma matches_172_second_octet:
  assumes "x \<in> set [''16'', ''17'', ''18'', ''19'', ''20'', ''21'', ''22'', ''23'',
     ''24'', ''25'', ''26'', ''27'', ''28'', ''29'', ''30'', ''31'']"
  shows "matches_172 (''172.'' @ x @ ''.'' @ rest)"
  using assms by (auto simp: matches_172_def)

lemma matches_172_ipv4:
  assumes "b \<in> {16..31}"
  shows "matches_172 (ipv4 172 b c d)"
proof -
  have "b \<in> {16..<32}" using assms by auto
  then have "b \<in> set [16..<32]" by (simp only: set_upt)
  then have "dec b \<in> dec ` set [16..<32]" by (rule imageI)
  then have "dec b \<in> set (map dec [16..<32])" by (simp only: set_map)
  then have "matches_172 (''172.'' @ dec b @ ''.'' @ (dec c @ ''.'' @ dec d))"
    unfolding dec_16_31 by (rule matches_172_second_octet)
  then show ?thesis by (simp add: ipv4_def dec_172)
qed

lemma guarded_host_private: "guarded_host h \<Longrightarrow> private_host h"
  using matches_172_ipv4 by (auto simp: guarded_host_def private_host_def)

text \<open>
  C5. \<open>validateUrl\<close> rejects a value that is not a string or is empty after trimming;
  it rejects a string whose trimmed form does not begin with \<open>http://\<close> or
  \<open>https://\<close>, one the library check refuses, and one \<open>new URL\<close> cannot parse; it
  rejects every URL whose host, in lower case, is \<open>localhost\<close>, \<open>127.0.0.1\<close>,
  \<open>0.0.0.0\<close>, begins with \<open>10.\<close> or \<open>192.168.\<close>, or is an address from
  \<open>172.16.0.0\<close> to \<open>172.31.255.255\<close>; and a successful result is the input string
  trimmed. The library check and the URL parser are arbitrary here.
\<close>

theorem validateUrl_spec:
  "((\<forall>s. url = JString s \<longrightarrow> trim s = []) \<longrightarrow> isl (validateUrl chk nu url)) \<and>
   (\<forall>s. url = JString s \<longrightarrow>
      (\<not> (prefix ''http://'' (trim s) \<or> prefix ''https://'' (trim s)) \<longrightarrow>
         isl (validateUrl chk nu url)) \<and>
      (\<not> chk (trim s) \<longrightarrow> isl (validateUrl chk nu url)) \<and>
      (nu (trim s) = None \<longrightarrow> isl (validateUrl chk nu url)) \<and>
      (\<forall>u. nu (trim s) = Some u \<and> guarded_host (toLowerCase (hostname u)) \<longrightarrow>
         isl (validateUrl chk nu url))) \<and>
   (\<forall>r. validateUrl chk nu url = Inr r \<longrightarrow> (\<exists>s. url = JString s \<and> r = trim s))"
proof -
  have a: "isl (validateUrl chk nu url)" if "\<forall>s. url = JString s \<longrightarrow> trim s = []"
    using that by (cases url) (auto simp: validateUrl_def Let_def)
  have b: "isl (validateUrl chk nu (JString s))"
    if "\<not> (prefix ''http://'' (trim s) \<or> prefix ''https://'' (trim s))" for s
    using that by (auto simp: validateUrl_def Let_def has_http_scheme_def)
  have c: "isl (validateUrl chk nu (JString s))" if "\<not> chk (trim s)" for s
    using that by (auto simp: validateUrl_def Let_def)
  have d: "isl (validateUrl chk nu (JString s))" if "nu (trim s) = None" for s
    using that by (auto simp: validateUrl_def Let_def)
  have e: "isl (validateUrl chk nu (JString s))"
    if "nu (trim s) = Some u" "guarded_host (toLowerCase (hostname u))" for s u
    using that(1) guarded_host_private[OF that(2)] by (auto simp: validateUrl_def Let_def)
  have f: "\<exists>s. url = JString s \<and> r = trim s" if "validateUrl chk nu url = Inr r" for r
    using that by (cases url) (auto simp: validateUrl_def Let_def split: if_splits option.splits)
  show ?thesis using a b c d e f by (intro conjI allI impI) auto
qed

theorem validateUrl_spec_witness:
  "isl (validateUrl (isURL env_private_urls) (new_URL env_private_urls)
          (JString ''http://localhost/admin'')) \<and>
   isl (validateUrl (isURL env_private_urls) (new_URL env_private_urls)
          (JString ''http://172.20.1.1/'')) \<and>
   validateUrl (isURL env_free) (new_URL env_free) (JString '' https://example.com/page '') =
     Inr ''https://example.com/page''"
proof -
  let ?i = "isURL env_private_urls" and ?n = "new_URL env_private_urls"
  have n1: "?n (trim ''http://localhost/admin'') =
      Some \<lparr>hostname = ''localhost'', protocol = ''http:''\<rparr>"
    by code_simp
  have n2: "?n (trim ''http://172.20.1.1/'') =
      Some \<lparr>hostname = ''172.20.1.1'', protocol = ''http:''\<rparr>"
    by code_simp
  have l1: "toLowerCase ''localhost'' = ''localhost''" by code_simp
  have l2: "toLowerCase ''172.20.1.1'' = ''172.20.1.1''" by code_simp
  have g1: "guarded_host (toLowerCase (hostname \<lparr>hostname = ''localhost'', protocol = ''http:''\<rparr>))"
    by (simp add: l1 guarded_host_def)
  have ip: "''172.20.1.1'' = ipv4 172 20 1 1" by code_simp
  have "\<exists>b \<in> {16..31}. \<exists>c \<in> {0..255}. \<exists>d \<in> {0..255}. ''172.20.1.1'' = ipv4 172 b c (d::nat)"
    by (rule bexI[of _ 20], rule bexI[of _ 1], rule bexI[of _ 1], rule ip) simp_all
  then have g2: "guarded_host (toLowerCase (hostname \<lparr>hostname = ''172.20.1.1'', protocol = ''http:''\<rparr>))"
    unfolding guarded_host_def by (simp only: url_obj.simps l2) blast
  have a: "isl (validateUrl ?i ?n (JString ''http://localhost/admin''))"
    by (rule validateUrl_spec[of "JString ''http://localhost/admin''" ?i ?n, THEN conjunct2,
          THEN conjunct1, rule_format, OF refl, THEN conjunct2, THEN conjunct2, THEN conjunct2,
          rule_format, OF conjI[OF n1 g1]])
  have b: "isl (validateUrl ?i ?n (JString ''http://172.20.1.1/''))"
    by (rule validateUrl_spec[of "JString ''http://172.20.1.1/''" ?i ?n, THEN conjunct2,
          THEN conjunct1, rule_format, OF refl, THEN conjunct2, THEN conjunct2, THEN conjunct2,
          rule_format, OF conjI[OF n2 g2]])
  have "validateUrl (isURL env_free) (new_URL env_free) (JString '' https://example.com/page '') =
     Inr (trim '' https://example.com/page '')"
    by code_simp
  moreover have "trim '' https://example.com/page '' = ''https://example.com/page''"
    by code_simp
  ultimately show ?thesis using a b by simp
qed

section \<open>Click accounting\<close>

lemma post_shorturls_writes:
  "doc \<in> set (snd (post_shorturls e url validity sc now now_save)) \<Longrightarrow>
     clicks doc = [] \<and> clickCount doc = 0"
  by (auto simp: post_shorturls_def Url_save_def Let_def
      split: sum.splits sc_result.splits jsnum.splits if_splits)

lemma get_redirect_writes:
  "Url_findOne e c = Inr (Some doc) \<Longrightarrow> d' \<in> set (snd (get_redirect e c req t t')) \<Longrightarrow>
     d' = push_click doc (clickData e req t')"
  by (auto simp: get_redirect_def addClick_def Url_save_def Let_def
      split: sum.splits if_splits)

lemma push_click_clicks: "clicks (push_click d ck) = clicks d @ [ck]"
  by (simp add: push_click_def Let_def)

lemma push_click_count: "clickCount (push_click d ck) = int (length (clicks d)) + 1"
  by (simp add: push_click_def Let_def)

lemma record_after_snoc: "record_after d (cs @ [ck]) = push_click (record_after d cs) ck"
  by (simp add: record_after_def)

lemma record_after_clicks: "clicks (record_after d cs) = clicks d @ cs"
  by (induction cs rule: rev_induct) (simp_all add: record_after_snoc push_click_clicks, simp add: record_after_def)

lemma record_after_count:
  "clickCount d = int (length (clicks d)) \<Longrightarrow>
     clickCount (record_after d cs) = int (length (clicks d) + length cs)"
  by (induction cs rule: rev_induct)
     (simp_all add: record_after_snoc push_click_count record_after_clicks, simp add: record_after_def)

text \<open>
  C6. A record the creation handler writes has no clicks and a count of 0. After any
  clicks \<open>cs\<close> appended to it, its clicks are exactly \<open>cs\<close> in order and its count is
  their number, which is not negative; one more click is added at the end and raises
  the count by one; and the document the redirect handler writes for a record in that
  state is the record with the request's click appended. No handler writes anything
  else: the statistics handler returns a response only.
\<close>

theorem click_count_invariant:
  assumes "doc0 \<in> set (snd (post_shorturls e url validity sc now now_save))"
  shows "clicks doc0 = [] \<and> clickCount doc0 = 0 \<and>
         clicks (record_after doc0 cs) = cs \<and>
         clickCount (record_after doc0 cs) = int (length (clicks (record_after doc0 cs))) \<and>
         0 \<le> clickCount (record_after doc0 cs) \<and>
         clicks (record_after doc0 (cs @ [ck])) = clicks (record_after doc0 cs) @ [ck] \<and>
         clickCount (record_after doc0 (cs @ [ck])) = clickCount (record_after doc0 cs) + 1 \<and>
         (\<forall>e' c req t t' d'. Url_findOne e' c = Inr (Some (record_after doc0 cs)) \<and>
            d' \<in> set (snd (get_redirect e' c req t t')) \<longrightarrow>
            d' = record_after doc0 (cs @ [clickData e' req t']))"
proof -
  note new = post_shorturls_writes[OF assms]
  have inv0: "clickCount doc0 = int (length (clicks doc0))" using new by simp
  have c: "clicks (record_after doc0 xs) = xs" for xs
    using new by (simp add: record_after_clicks)
  have n: "clickCount (record_after doc0 xs) = int (length xs)" for xs
    using record_after_count[OF inv0, of xs] new by simp
  have w: "d' = record_after doc0 (cs @ [clickData e' req t'])"
    if "Url_findOne e' c = Inr (Some (record_after doc0 cs))"
       "d' \<in> set (snd (get_redirect e' c req t t'))" for e' c req t t' d'
    using get_redirect_writes[OF that] by (simp add: record_after_snoc)
  show ?thesis using new c n w by (intro conjI allI impI) auto
qed

theorem click_count_invariant_witness:
  "clicks (record_after \<lparr>shortcode = ''abcd'', originalUrl = ''https://example.com/page'',
       createdAt = 1000, expiryAt = 1801000, clickCount = 0, clicks = []\<rparr>
       [sample_click 0, sample_click 1]) = [sample_click 0, sample_click 1] \<and>
   clickCount (record_after \<lparr>shortcode = ''abcd'', originalUrl = ''https://example.com/page'',
       createdAt = 1000, expiryAt = 1801000, clickCount = 0, clicks = []\<rparr>
       [sample_click 0, sample_click 1]) = 2"
proof -
  let ?doc = "\<lparr>shortcode = ''abcd'', originalUrl = ''https://example.com/page'',
     createdAt = 1000, expiryAt = 1801000, clickCount = 0, clicks = []\<rparr>"
  have w: "snd (post_shorturls env_free (JString ''https://example.com/page'') JUndefined
      (JString ''abcd'') 1000 1001) = [?doc]"
    by code_simp
  have m: "?doc \<in> set (snd (post_shorturls env_free (JString ''https://example.com/page'')
      JUndefined (JString ''abcd'') 1000 1001))"
    unfolding w by simp
  from click_count_invariant[OF m, of "[sample_click 0, sample_click 1]"]
  show ?thesis by simp
qed

end
